theory Spec2Isabelle
  imports Main "HOL-Library.Log_Nat" "HOL-Library.Monad_Syntax"
begin

section \<open>Python values shared by the four scripts\<close>

text \<open>
  The exceptions that the statements of the four scripts can raise: indexing a list
  out of range, looking up a key that a dictionary does not hold, converting an
  integer that is too large to a float, and \<^verbatim>\<open>float(value)\<close> on a string that is
  not a number.
\<close>

datatype py_error = IndexError | KeyError | OverflowError | ValueError

text \<open>
  \<^verbatim>\<open>xs[i]\<close> on a Python list: a negative index counts from the end, an index outside
  the list raises \<^verbatim>\<open>IndexError\<close>.
\<close>

definition list_getitem :: "'a list \<Rightarrow> int \<Rightarrow> py_error + 'a" where
  "list_getitem xs i =
     (let k = (if i < 0 then i + int (length xs) else i)
      in if k < 0 \<or> int (length xs) \<le> k then Inl IndexError else Inr (xs ! nat k))"

text \<open>\<^verbatim>\<open>d[k]\<close> on a dictionary: a missing key raises \<^verbatim>\<open>KeyError\<close>.\<close>

definition dict_getitem :: "('k \<rightharpoonup> 'v) \<Rightarrow> 'k \<Rightarrow> py_error + 'v" where
  "dict_getitem d k = (case d k of None \<Rightarrow> Inl KeyError | Some v \<Rightarrow> Inr v)"

text \<open>
  \<^verbatim>\<open>str(i)\<close> of an integer, as the f-strings and \<^verbatim>\<open>print\<close> format it: decimal digits,
  with a minus sign for a negative number.
\<close>

fun str_nat :: "nat \<Rightarrow> string" where
  "str_nat n =
     (if n < 10 then [''0123456789'' ! n]
      else str_nat (n div 10) @ [''0123456789'' ! (n mod 10)])"

declare str_nat.simps [simp del]

definition str_int :: "int \<Rightarrow> string" where
  "str_int i = (if i < 0 then CHR ''-'' # str_nat (nat (- i)) else str_nat (nat i))"

text \<open>
  A run of a script. Each call of \<^verbatim>\<open>print\<close> adds one string to the output (the text
  it writes, without the newline that ends it). \<open>None\<close> is a run that never returns;
  \<open>Some (out, None)\<close> is a run that printed \<open>out\<close> and reached the end of the script;
  \<open>Some (out, Some e)\<close> is a run that printed \<open>out\<close> and stopped on the uncaught
  exception \<open>e\<close>.
\<close>

type_synonym run = "(string list \<times> py_error option) option"

section \<open>\<^verbatim>\<open>examples/python/valid.py\<close>\<close>

subsection \<open>\<^verbatim>\<open>fibonacci\<close>\<close>

text \<open>
  The dictionary \<^verbatim>\<open>memo\<close> is shared by all the calls of the inner function
  \<^verbatim>\<open>fib_memo\<close>, which update it: the model passes it in and returns it with the
  value. Python evaluates \<^verbatim>\<open>fib_memo(n-1)\<close> first and \<^verbatim>\<open>fib_memo(n-2)\<close> on the
  dictionary the first call has left, stores the sum under \<open>n\<close>, and returns
  \<^verbatim>\<open>memo[n]\<close>. The recursion need not end, so the function is partial: \<open>None\<close> is
  a call that never returns (the depth of the interpreter's stack is not modelled).
\<close>

partial_function (option) fib_memo ::
  "int \<Rightarrow> (int \<rightharpoonup> int) \<Rightarrow> (py_error + int \<times> (int \<rightharpoonup> int)) option" where
  "fib_memo n memo =
     (if memo n = None then
        do {
          r1 \<leftarrow> fib_memo (n - 1) memo;
          case r1 of
            Inl e \<Rightarrow> Some (Inl e)
          | Inr (a, memo1) \<Rightarrow>
              do {
                r2 \<leftarrow> fib_memo (n - 2) memo1;
                case r2 of
                  Inl e \<Rightarrow> Some (Inl e)
                | Inr (b, memo2) \<Rightarrow>
                    (let memo3 = memo2(n \<mapsto> a + b)
                     in Some (map_sum id (\<lambda>v. (v, memo3)) (dict_getitem memo3 n)))
              }
        }
      else Some (map_sum id (\<lambda>v. (v, memo)) (dict_getitem memo n)))"

declare fib_memo.simps [code]

definition fibonacci :: "int \<Rightarrow> (py_error + int) option" where
  "fibonacci n =
     do {
       r \<leftarrow> fib_memo n [0 \<mapsto> 0, 1 \<mapsto> 1];
       Some (map_sum id fst r)
     }"

text \<open>The Fibonacci numbers, to state what \<^verbatim>\<open>fibonacci\<close> computes.\<close>

fun fib_number :: "nat \<Rightarrow> int" where
  "fib_number 0 = 0"
| "fib_number (Suc 0) = 1"
| "fib_number (Suc (Suc k)) = fib_number (Suc k) + fib_number k"

text \<open>
  The dictionary at every moment of a call \<^verbatim>\<open>fibonacci(n)\<close>: it holds the two entries
  it starts with, and every entry is a Fibonacci number under its index.
\<close>

definition memo_ok :: "(int \<rightharpoonup> int) \<Rightarrow> bool" where
  "memo_ok memo \<longleftrightarrow>
     memo 0 = Some 0 \<and> memo 1 = Some 1 \<and>
     (\<forall>k v. memo k = Some v \<longrightarrow> 0 \<le> k \<and> v = fib_number (nat k))"

subsection \<open>\<^verbatim>\<open>is_prime\<close>\<close>

text \<open>
  \<^verbatim>\<open>num**0.5\<close> is float arithmetic. Python first converts the integer \<open>num\<close> to a
  double: the nearest double, ties to the even mantissa, and \<^verbatim>\<open>OverflowError\<close> when
  that is \<open>2^1024\<close> or more. \<open>round_half_even\<close> rounds a non-negative integer to 53
  significant bits; the double that \<open>float_of_int\<close> returns has an integer value and
  is given by that value.
\<close>

definition round_half_even :: "int \<Rightarrow> int" where
  "round_half_even n =
     (let e = bitlen n - 53
      in if e \<le> 0 then n
         else (let q = n div 2 ^ nat e;
                   r = n mod 2 ^ nat e;
                   h = 2 ^ nat (e - 1)
               in (if h < r \<or> (r = h \<and> odd q) then q + 1 else q) * 2 ^ nat e))"

definition float_of_int :: "int \<Rightarrow> py_error + int" where
  "float_of_int n =
     (let x = round_half_even \<bar>n\<bar>
      in if 2 ^ 1024 \<le> x then Inl OverflowError else Inr (sgn n * x))"

text \<open>
  The loop \<^verbatim>\<open>for i in range(2, stop)\<close> with its early \<^verbatim>\<open>return False\<close>; falling out
  of the loop is the \<^verbatim>\<open>return True\<close> that follows it. \<open>i\<close> starts at 2 and grows, so
  \<^verbatim>\<open>num % i\<close> never divides by zero, and for a positive \<open>i\<close> Python's \<^verbatim>\<open>%\<close> is
  \<open>mod\<close>.
\<close>

function is_prime_loop :: "int \<Rightarrow> int \<Rightarrow> int \<Rightarrow> bool" where
  "is_prime_loop num i stop =
     (if i < stop then (if num mod i = 0 then False else is_prime_loop num (i + 1) stop)
      else True)"
  by pat_completeness auto
termination
  by (relation "measure (\<lambda>(num, i, stop). nat (stop - i))") auto

declare is_prime_loop.simps [simp del]

text \<open>
  What the platform's floating-point power returns is not in the source: the
  parameter \<open>pow_half\<close> stands for it. \<open>pow_half x\<close> is the integer
  \<^verbatim>\<open>int(x ** 0.5)\<close> for the double \<open>x\<close>: the double-precision square root of \<open>x\<close>,
  truncated. Neither the power of a double that is at least 2 nor the truncation of
  its finite result raises.
\<close>

definition is_prime :: "(int \<Rightarrow> int) \<Rightarrow> int \<Rightarrow> py_error + bool" where
  "is_prime pow_half num =
     (if num < 2 then Inr False
      else (case float_of_int num of
              Inl e \<Rightarrow> Inl e
            | Inr x \<Rightarrow> Inr (is_prime_loop num 2 (pow_half x + 1))))"

text \<open>
  The exact integer square root, \<open>\<lfloor>\<surd>x\<rfloor>\<close>, by counting up: the value of \<open>pow_half\<close>
  when the square root loses nothing to rounding. It is the instance on which the
  scripts are run below; their arguments are at most 4181.
\<close>

function floor_sqrt_from :: "int \<Rightarrow> int \<Rightarrow> int" where
  "floor_sqrt_from r x = (if (r + 1) * (r + 1) \<le> x then floor_sqrt_from (r + 1) x else r)"
  by pat_completeness auto
termination
proof (relation "measure (\<lambda>(r, x). nat (x - r))", goal_cases)
  case 1
  show ?case by simp
next
  case (2 r x)
  have "r < x"
  proof (rule ccontr)
    assume "\<not> r < x"
    then have "x \<le> r" by simp
    have "0 \<le> (r + 1) * (r + 1)" by (rule zero_le_square)
    from this 2 have "0 \<le> x" by (rule order_trans)
    with \<open>x \<le> r\<close> have "0 \<le> r" by simp
    then have "(r + 1) * 1 \<le> (r + 1) * (r + 1)" by (intro mult_left_mono) simp_all
    then have "r < (r + 1) * (r + 1)" by simp
    with 2 \<open>x \<le> r\<close> show False by simp
  qed
  then show ?case by simp
qed

declare floor_sqrt_from.simps [simp del]

definition floor_sqrt :: "int \<Rightarrow> int" where
  "floor_sqrt x = floor_sqrt_from 0 x"



subsection \<open>The script\<close>

text \<open>
  The body under \<^verbatim>\<open>if __name__ == "__main__"\<close>: a header, one line for each \<open>i\<close> of
  \<^verbatim>\<open>range(10)\<close>, a second header (its text starts with a newline), and one line for
  each \<open>i\<close> of \<^verbatim>\<open>range(20)\<close> whose Fibonacci number \<^verbatim>\<open>is_prime\<close> accepts.
\<close>

fun valid_fibonacci_lines :: "int list \<Rightarrow> string list \<Rightarrow> run" where
  "valid_fibonacci_lines [] out = Some (out, None)"
| "valid_fibonacci_lines (i # rest) out =
     do {
       r \<leftarrow> fibonacci i;
       case r of
         Inl e \<Rightarrow> Some (out, Some e)
       | Inr f \<Rightarrow>
           valid_fibonacci_lines rest
             (out @ [''fibonacci('' @ str_int i @ '') = '' @ str_int f])
     }"

fun valid_prime_lines :: "(int \<Rightarrow> int) \<Rightarrow> int list \<Rightarrow> string list \<Rightarrow> run" where
  "valid_prime_lines pow_half [] out = Some (out, None)"
| "valid_prime_lines pow_half (i # rest) out =
     do {
       r \<leftarrow> fibonacci i;
       case r of
         Inl e \<Rightarrow> Some (out, Some e)
       | Inr fib \<Rightarrow>
           (case is_prime pow_half fib of
              Inl e \<Rightarrow> Some (out, Some e)
            | Inr p \<Rightarrow>
                valid_prime_lines pow_half rest
                  (if p then out @ [''fibonacci('' @ str_int i @ '') = '' @ str_int fib @ '' is prime'']
                   else out))
     }"

definition valid_main :: "(int \<Rightarrow> int) \<Rightarrow> run" where
  "valid_main pow_half =
     do {
       (out, raised) \<leftarrow> valid_fibonacci_lines [0..9] [''Fibonacci Sequence:''];
       case raised of
         Some e \<Rightarrow> Some (out, Some e)
       | None \<Rightarrow>
           valid_prime_lines pow_half [0..19]
             (out @ [CHR 0x0A # ''Prime Fibonacci Numbers:''])
     }"

section \<open>\<^verbatim>\<open>source/tests/files/python/valid/calculator.py\<close>\<close>

text \<open>
  \<^verbatim>\<open>class Calculator\<close> has one attribute, the list \<^verbatim>\<open>history\<close>. The numbers are
  whatever the caller passes (the annotations say \<^verbatim>\<open>float\<close>, \<^verbatim>\<open>main\<close> passes
  integers), so the element type is a parameter that carries the \<^verbatim>\<open>+\<close> and \<^verbatim>\<open>-\<close>
  of the source. Each method takes the object and returns its result together with
  the object as the method leaves it.
\<close>

record 'a Calculator =
  history :: "'a list"

definition Calculator_init :: "'a Calculator" where
  "Calculator_init = \<lparr>history = []\<rparr>"

definition Calculator_add ::
  "'a::plus Calculator \<Rightarrow> 'a \<Rightarrow> 'a \<Rightarrow> 'a \<times> 'a Calculator" where
  "Calculator_add self a b =
     (let result = a + b;
          self' = self\<lparr>history := history self @ [result]\<rparr>
      in (result, self'))"

definition Calculator_subtract ::
  "'a::minus Calculator \<Rightarrow> 'a \<Rightarrow> 'a \<Rightarrow> 'a \<times> 'a Calculator" where
  "Calculator_subtract self a b =
     (let result = a - b;
          self' = self\<lparr>history := history self @ [result]\<rparr>
      in (result, self'))"

text \<open>
  \<^verbatim>\<open>get_last_result\<close>: \<^verbatim>\<open>not self.history\<close> is true exactly for the empty list;
  otherwise the method evaluates \<^verbatim>\<open>self.history[-1]\<close>. The result \<^verbatim>\<open>None\<close> of the
  source is \<open>None\<close> here.
\<close>

definition Calculator_get_last_result ::
  "'a Calculator \<Rightarrow> py_error + ('a option \<times> 'a Calculator)" where
  "Calculator_get_last_result self =
     (if history self = [] then Inr (None, self)
      else (case list_getitem (history self) (- 1) of
              Inl e \<Rightarrow> Inl e
            | Inr x \<Rightarrow> Inr (Some x, self)))"

text \<open>
  A client of the class calls its three methods in some order. \<open>calls\<close> runs such a
  sequence from the object as \<^verbatim>\<open>__init__\<close> leaves it; \<open>computed\<close> lists, in order,
  the results that the calls to \<^verbatim>\<open>add\<close> and \<^verbatim>\<open>subtract\<close> of a sequence return.
\<close>

datatype 'a method_call = Add 'a 'a | Subtract 'a 'a | Get_last_result

fun invoke :: "'a::{plus,minus} Calculator \<Rightarrow> 'a method_call \<Rightarrow> 'a Calculator" where
  "invoke self (Add a b) = snd (Calculator_add self a b)"
| "invoke self (Subtract a b) = snd (Calculator_subtract self a b)"
| "invoke self Get_last_result =
     (case Calculator_get_last_result self of Inl e \<Rightarrow> self | Inr (r, self') \<Rightarrow> self')"

definition calls :: "'a::{plus,minus} method_call list \<Rightarrow> 'a Calculator" where
  "calls cs = foldl invoke Calculator_init cs"

fun computed :: "'a::{plus,minus} method_call list \<Rightarrow> 'a list" where
  "computed [] = []"
| "computed (Add a b # cs) = (a + b) # computed cs"
| "computed (Subtract a b # cs) = (a - b) # computed cs"
| "computed (Get_last_result # cs) = computed cs"

text \<open>
  \<^verbatim>\<open>main\<close> passes integers, and an f-string formats the result of
  \<^verbatim>\<open>get_last_result\<close> with \<^verbatim>\<open>str\<close>, which is \<^verbatim>\<open>None\<close> for \<^verbatim>\<open>None\<close>.
\<close>

definition str_optional_int :: "int option \<Rightarrow> string" where
  "str_optional_int r = (case r of None \<Rightarrow> ''None'' | Some i \<Rightarrow> str_int i)"

definition calculator_main :: run where
  "calculator_main =
     (let calc = Calculator_init;
          (r1, calc) = Calculator_add calc 5 3;
          out = [''5 + 3 = '' @ str_int r1];
          (r2, calc) = Calculator_subtract calc 10 4;
          out = out @ [''10 - 4 = '' @ str_int r2]
      in case Calculator_get_last_result calc of
           Inl e \<Rightarrow> Some (out, Some e)
         | Inr (r3, calc) \<Rightarrow> Some (out @ [''Last result: '' @ str_optional_int r3], None))"

section \<open>\<^verbatim>\<open>source/tests/files/python/invalid/bad_code.py\<close>\<close>

text \<open>
  \<^verbatim>\<open>class badCalculator\<close>, again with the list \<^verbatim>\<open>history\<close> as its only attribute.
  \<^verbatim>\<open>getHistory\<close> prints one line for each index, \<^verbatim>\<open>print (i, self.history[i])\<close>: the
  two values separated by a space; \<open>str\<close> is \<^verbatim>\<open>str\<close> on the elements.
\<close>

record 'a badCalculator =
  bad_history :: "'a list"

definition badCalculator_init :: "'a badCalculator" where
  "badCalculator_init = \<lparr>bad_history = []\<rparr>"


definition badCalculator_subtract ::
  "'a::minus badCalculator \<Rightarrow> 'a \<Rightarrow> 'a \<Rightarrow> 'a \<times> 'a badCalculator" where
  "badCalculator_subtract self x y =
     (let result = x - y;
          self' = self\<lparr>bad_history := bad_history self @ [result]\<rparr>
      in (result, self'))"

fun getHistory_lines ::
  "('a \<Rightarrow> string) \<Rightarrow> 'a list \<Rightarrow> int list \<Rightarrow> string list \<Rightarrow> string list \<times> py_error option" where
  "getHistory_lines str xs [] out = (out, None)"
| "getHistory_lines str xs (i # rest) out =
     (case list_getitem xs i of
        Inl e \<Rightarrow> (out, Some e)
      | Inr x \<Rightarrow> getHistory_lines str xs rest (out @ [str_int i @ '' '' @ str x]))"

definition badCalculator_getHistory ::
  "('a \<Rightarrow> string) \<Rightarrow> 'a badCalculator \<Rightarrow> string list \<times> py_error option" where
  "badCalculator_getHistory str self =
     getHistory_lines str (bad_history self) [0..int (length (bad_history self)) - 1] []"

text \<open>
  \<^verbatim>\<open>process_input\<close> looks at the type of its argument, so the argument is a Python
  value: \<^verbatim>\<open>None\<close>, a string, or a value of another type (an integer, a float and a
  boolean stand for these). \<^verbatim>\<open>float(value)\<close> on a string is the built-in parser, which
  is not in the source: the parameter \<open>to_float\<close> stands for it, with \<open>Inl\<close> for every
  exception it raises and \<open>Inr\<close> for the float it returns. The bare \<^verbatim>\<open>except:\<close> catches
  every exception, prints one line and returns \<^verbatim>\<open>None\<close>. A value that is neither
  \<^verbatim>\<open>None\<close> nor a string falls off the end of the method, which returns \<^verbatim>\<open>None\<close>. The
  method returns its value and the lines it has printed; it does not touch the object.
\<close>

datatype 'f py_value = PyNone | PyStr string | PyInt int | PyFloat 'f | PyBool bool

fun badCalculator_process_input ::
  "(string \<Rightarrow> 'e + 'f) \<Rightarrow> 'a badCalculator \<Rightarrow> 'f py_value \<Rightarrow> 'f py_value \<times> string list" where
  "badCalculator_process_input to_float self PyNone = (PyInt 0, [])"
| "badCalculator_process_input to_float self (PyStr s) =
     (case to_float s of
        Inr f \<Rightarrow> (PyFloat f, [])
      | Inl e \<Rightarrow> (PyNone, [''Error converting value'']))"
| "badCalculator_process_input to_float self value = (PyNone, [])"


section \<open>\<^verbatim>\<open>test.py\<close>\<close>

text \<open>
  \<^verbatim>\<open>calculate_fibonacci\<close> recurses on \<open>n - 1\<close> and \<open>n - 2\<close> when \<open>1 < n\<close> and returns
  \<open>n\<close> otherwise, so it returns for every integer.
\<close>

function calculate_fibonacci :: "int \<Rightarrow> int" where
  "calculate_fibonacci n =
     (if n \<le> 1 then n else calculate_fibonacci (n - 1) + calculate_fibonacci (n - 2))"
  by pat_completeness auto
termination
  by (relation "measure nat") auto

declare calculate_fibonacci.simps [simp del]

text \<open>
  \<^verbatim>\<open>is_prime\<close> of this file (lines 16 to 23) has the text of the function of the same
  name in \<^verbatim>\<open>valid.py\<close>.
\<close>

function test_is_prime_loop :: "int \<Rightarrow> int \<Rightarrow> int \<Rightarrow> bool" where
  "test_is_prime_loop num i stop =
     (if i < stop then (if num mod i = 0 then False else test_is_prime_loop num (i + 1) stop)
      else True)"
  by pat_completeness auto
termination
  by (relation "measure (\<lambda>(num, i, stop). nat (stop - i))") auto

declare test_is_prime_loop.simps [simp del]

definition test_is_prime :: "(int \<Rightarrow> int) \<Rightarrow> int \<Rightarrow> py_error + bool" where
  "test_is_prime pow_half num =
     (if num < 2 then Inr False
      else (case float_of_int num of
              Inl e \<Rightarrow> Inl e
            | Inr x \<Rightarrow> Inr (test_is_prime_loop num 2 (pow_half x + 1))))"

fun test_fibonacci_lines :: "int list \<Rightarrow> string list \<Rightarrow> string list" where
  "test_fibonacci_lines [] out = out"
| "test_fibonacci_lines (i # rest) out =
     test_fibonacci_lines rest
       (out @ [''Fibonacci('' @ str_int i @ '') = '' @ str_int (calculate_fibonacci i)])"

fun test_prime_lines :: "(int \<Rightarrow> int) \<Rightarrow> int list \<Rightarrow> string list \<Rightarrow> run" where
  "test_prime_lines pow_half [] out = Some (out, None)"
| "test_prime_lines pow_half (i # rest) out =
     (case test_is_prime pow_half i of
        Inl e \<Rightarrow> Some (out, Some e)
      | Inr p \<Rightarrow>
          test_prime_lines pow_half rest (if p then out @ [str_int i @ '' is prime''] else out))"

definition test_main :: "(int \<Rightarrow> int) \<Rightarrow> run" where
  "test_main pow_half =
     (let out = [''Testing fibonacci calculation:''];
          out = test_fibonacci_lines [0..9] out;
          out = out @ [CHR 0x0A # ''Testing prime numbers:'']
      in test_prime_lines pow_half [0..19] out)"

text \<open>
  Lines 7 to 12 of the file, the whole of \<^verbatim>\<open>calculate_fibonacci\<close>, as text, and a
  scan that matches every closing parenthesis with an opening one before it:
  \<open>paren_depth\<close> returns the number of parentheses left open, or \<open>None\<close> at a closing
  parenthesis that closes nothing. None of these lines has a parenthesis inside a
  string or a comment.
\<close>

definition calculate_fibonacci_source :: "string list" where
  \<open>calculate_fibonacci_source =
     [''def calculate_fibonacci(n):'',
      ''    """Calculate the nth Fibonacci number recursively."""'',
      ''    if n <= 1:'',
      ''        return n'',
      ''    else:'',
      ''        return calculate_fibonacci(n-1) + calculate_fibonacci(n-2)'']\<close>

fun paren_depth :: "string \<Rightarrow> nat \<Rightarrow> nat option" where
  "paren_depth [] depth = Some depth"
| "paren_depth (c # cs) depth =
     (if c = CHR ''('' then paren_depth cs (Suc depth)
      else if c = CHR '')'' then (case depth of 0 \<Rightarrow> None | Suc d \<Rightarrow> paren_depth cs d)
      else paren_depth cs depth)"

definition parentheses_balanced :: "string list \<Rightarrow> bool" where
  "parentheses_balanced lines = (paren_depth (concat lines) 0 = Some 0)"

section \<open>The four scripts as programs\<close>




text \<open>The lines that the four scripts print, in order.\<close>

definition valid_output :: "string list" where
  "valid_output =
     [''Fibonacci Sequence:'',
      ''fibonacci(0) = 0'', ''fibonacci(1) = 1'', ''fibonacci(2) = 1'', ''fibonacci(3) = 2'',
      ''fibonacci(4) = 3'', ''fibonacci(5) = 5'', ''fibonacci(6) = 8'', ''fibonacci(7) = 13'',
      ''fibonacci(8) = 21'', ''fibonacci(9) = 34'',
      CHR 0x0A # ''Prime Fibonacci Numbers:'',
      ''fibonacci(3) = 2 is prime'', ''fibonacci(4) = 3 is prime'',
      ''fibonacci(5) = 5 is prime'', ''fibonacci(7) = 13 is prime'',
      ''fibonacci(11) = 89 is prime'', ''fibonacci(13) = 233 is prime'',
      ''fibonacci(17) = 1597 is prime'']"

definition calculator_output :: "string list" where
  "calculator_output = [''5 + 3 = 8'', ''10 - 4 = 6'', ''Last result: 6'']"


definition test_output :: "string list" where
  "test_output =
     [''Testing fibonacci calculation:'',
      ''Fibonacci(0) = 0'', ''Fibonacci(1) = 1'', ''Fibonacci(2) = 1'', ''Fibonacci(3) = 2'',
      ''Fibonacci(4) = 3'', ''Fibonacci(5) = 5'', ''Fibonacci(6) = 8'', ''Fibonacci(7) = 13'',
      ''Fibonacci(8) = 21'', ''Fibonacci(9) = 34'',
      CHR 0x0A # ''Testing prime numbers:'',
      ''2 is prime'', ''3 is prime'', ''5 is prime'', ''7 is prime'', ''11 is prime'',
      ''13 is prime'', ''17 is prime'', ''19 is prime'']"


section \<open>The style check\<close>

text \<open>
  The text of the two fixtures of \<^verbatim>\<open>source/tests/files/python\<close>, line by line
  (without the empty lines that end each file).
\<close>

definition bad_code_source :: "string list" where
  \<open>bad_code_source =
     [''#!/usr/bin/env python3'',
      ''"""This module contains deliberate PEP8 and type hint violations."""'',
      ''import random, sys, os # Multiple imports on one line'',
      [],
      ''class badCalculator: # Class name should use CamelCase'',
      ''    def __init__(self):'',
      ''        self.history=[] # Missing spaces around operator'',
      ''        '',
      ''    def Add(self, x, y): # Method should be lowercase'',
      ''        # Missing type hints'',
      ''        result=x+y # Missing spaces'',
      ''        self.history.append(result)'',
      ''        return result'',
      ''    '',
      ''    def subtract( self, x , y ): # Inconsistent spacing'',
      ''        """Subtract two numbers.'',
      ''        Args:'',
      ''            x: First number'',
      ''            y: Second number # Missing proper indentation'',
      ''        Returns:'',
      ''            Difference between x and y"""'',
      ''        # Missing consistent docstring format'',
      ''        result = x-y'',
      ''        self.history.append(result)'',
      ''        return result'',
      ''    '',
      ''    def getHistory(self):'',
      ''        for i in range(0,len(self.history)): # Unnecessary 0 in range'',
      ''            print (i, self.history[i])        # Extra space after print'',
      ''    '',
      ''    def process_input(self, value): # No type hints'',
      ''        if value == None: return 0 # Should be '' @ [CHR 0x27] @ ''is None'' @ [CHR 0x27] @ '', and statement on same line'',
      ''        elif type(value) == str: # Should use isinstance'',
      ''            try:'',
      ''                return float(value)'',
      ''            except:  # Bare except clause'',
      ''                print ("Error converting value")'',
      ''                return None'',
      [],
      [],
      ''# Extraneous whitespace at end of line '',
      ''def main(): '',
      ''    calc = badCalculator()'',
      ''    print("5 + 3 =", calc.Add(5, 3)) # Should use f-string'',
      ''    print("Last result:", calc.history[-1]) # Direct access to internals'',
      [],
      ''if __name__ == "__main__":'',
      ''    main()'']\<close>

definition calculator_source :: "string list" where
  \<open>calculator_source =
     [''#!/usr/bin/env python3'',
      ''"""'',
      ''A simple calculator module with type hints.'',
      [],
      ''This module demonstrates proper PEP8 compliance and type hinting.'',
      ''"""'',
      ''from typing import Union, List, Optional'',
      [],
      [],
      ''class Calculator:'',
      ''    """A simple calculator that performs basic arithmetic operations."""'',
      [],
      ''    def __init__(self) -> None:'',
      ''        """Initialize the calculator with a clean history."""'',
      ''        self.history: List[float] = []'',
      [],
      ''    def add(self, a: float, b: float) -> float:'',
      ''        """'',
      ''        Add two numbers and store the result in history.'',
      [],
      ''        Args:'',
      ''            a: First number'',
      ''            b: Second number'',
      [],
      ''        Returns:'',
      ''            The sum of a and b'',
      ''        """'',
      ''        result = a + b'',
      ''        self.history.append(result)'',
      ''        return result'',
      [],
      ''    def subtract(self, a: float, b: float) -> float:'',
      ''        """'',
      ''        Subtract b from a and store the result in history.'',
      [],
      ''        Args:'',
      ''            a: First number'',
      ''            b: Second number'',
      [],
      ''        Returns:'',
      ''            The difference between a and b'',
      ''        """'',
      ''        result = a - b'',
      ''        self.history.append(result)'',
      ''        return result'',
      [],
      ''    def get_last_result(self) -> Optional[float]:'',
      ''        """'',
      ''        Get the last calculation result.'',
      [],
      ''        Returns:'',
      ''            The last result or None if no calculations have been performed'',
      ''        """'',
      ''        if not self.history:'',
      ''            return None'',
      ''        return self.history[-1]'',
      [],
      [],
      ''def main() -> None:'',
      ''    """Execute a simple demonstration of the calculator."""'',
      ''    calc = Calculator()'',
      ''    print(f"5 + 3 = {calc.add(5, 3)}")'',
      ''    print(f"10 - 4 = {calc.subtract(10, 4)}")'',
      ''    print(f"Last result: {calc.get_last_result()}")'',
      [],
      [],
      ''if __name__ == "__main__":'',
      ''    main()'']\<close>

text \<open>
  Modelled from the spec: the style checker that the fixtures are written for is not
  among the sources. The spec names three conventions that the invalid fixture breaks:
  naming, spacing, and bare exception clauses. These are the three kinds of report.
\<close>

datatype violation = Naming | Spacing | Bare_except

text \<open>Modelled from the spec: a line without its indentation.\<close>

definition lstrip :: "string \<Rightarrow> string" where
  "lstrip s = dropWhile (\<lambda>c. c = CHR '' '') s"

text \<open>Modelled from the spec: whether a line starts with a given text.\<close>

definition starts_with :: "string \<Rightarrow> string \<Rightarrow> bool" where
  "starts_with p s = (take (length p) s = p)"

text \<open>Modelled from the spec: the capital letters, and the characters of a name.\<close>

definition is_upper :: "char \<Rightarrow> bool" where
  "is_upper c = List.member ''ABCDEFGHIJKLMNOPQRSTUVWXYZ'' c"

definition is_name_char :: "char \<Rightarrow> bool" where
  "is_name_char c =
     List.member ''abcdefghijklmnopqrstuvwxyzABCDEFGHIJKLMNOPQRSTUVWXYZ0123456789_'' c"

text \<open>
  Modelled from the spec: the name that a line declares with \<^verbatim>\<open>class\<close> or \<^verbatim>\<open>def\<close>.
\<close>

definition declared_name :: "string \<Rightarrow> string \<Rightarrow> string option" where
  "declared_name keyword line =
     (if starts_with (keyword @ '' '') (lstrip line)
      then Some (takeWhile is_name_char (drop (length keyword + 1) (lstrip line)))
      else None)"

text \<open>
  Modelled from the spec: the naming convention, as the comments of the fixture put
  it (``class name should use CamelCase'', ``method should be lowercase''): the name of
  a class starts with a capital letter, the name of a function has none.
\<close>

definition naming_violation :: "string \<Rightarrow> bool" where
  "naming_violation line =
     ((case declared_name ''class'' line of
         Some (c # cs) \<Rightarrow> \<not> is_upper c
       | _ \<Rightarrow> False)
      \<or> (case declared_name ''def'' line of
            Some name \<Rightarrow> list_ex is_upper name
          | None \<Rightarrow> False))"

text \<open>
  Modelled from the spec: the spacing convention, as the comments of the fixture put
  it (``missing spaces around operator''): an assignment sign has a space on each
  side. The scan skips string literals and stops at a comment; a sign that is part of
  \<^verbatim>\<open>==\<close>, \<^verbatim>\<open>!=\<close>, \<^verbatim>\<open><=\<close> or \<^verbatim>\<open>>=\<close> is not an assignment.
\<close>

fun unspaced_assignment :: "bool \<Rightarrow> char \<Rightarrow> string \<Rightarrow> bool" where
  "unspaced_assignment in_string prev [] = False"
| "unspaced_assignment in_string prev (c # cs) =
     (if c = CHR 0x22 then unspaced_assignment (\<not> in_string) c cs
      else if in_string then unspaced_assignment in_string c cs
      else if c = CHR ''#'' then False
      else if c = CHR ''=''
           \<and> \<not> List.member ''=!<>'' prev
           \<and> \<not> starts_with ''='' cs
           \<and> \<not> (prev = CHR '' '' \<and> starts_with '' '' cs)
      then True
      else unspaced_assignment in_string c cs)"

definition spacing_violation :: "string \<Rightarrow> bool" where
  "spacing_violation line = unspaced_assignment False (CHR '' '') line"

text \<open>
  Modelled from the spec: a bare exception clause is a line \<^verbatim>\<open>except:\<close>, with no
  exception named.
\<close>

definition bare_except_violation :: "string \<Rightarrow> bool" where
  "bare_except_violation line = starts_with ''except:'' (lstrip line)"

text \<open>
  Modelled from the spec: the reports for a line and for a file (each with the number
  of its line); a file passes the style check when there is no report.
\<close>

definition line_violations :: "string \<Rightarrow> violation list" where
  "line_violations line =
     (if naming_violation line then [Naming] else [])
     @ (if spacing_violation line then [Spacing] else [])
     @ (if bare_except_violation line then [Bare_except] else [])"

definition style_violations :: "string list \<Rightarrow> (nat \<times> violation) list" where
  "style_violations lines =
     concat (map (\<lambda>(n, line). map (Pair n) (line_violations line))
               (zip [1..<Suc (length lines)] lines))"

definition style_check :: "string list \<Rightarrow> bool" where
  "style_check lines = (style_violations lines = [])"

section \<open>Properties of the calculator\<close>

lemma list_getitem_last: "xs \<noteq> [] \<Longrightarrow> list_getitem xs (- 1) = Inr (last xs)"
proof -
  assume ne: "xs \<noteq> []"
  then have len: "0 < length xs" by simp
  then have idx: "nat (- 1 + int (length xs)) = length xs - 1" by simp
  from len have "list_getitem xs (- 1) = Inr (xs ! (length xs - 1))"
    unfolding list_getitem_def Let_def using idx by simp
  with ne show ?thesis by (simp add: last_conv_nth)
qed

text \<open>
  C6. For every calculator object and all numbers \<open>a\<close> and \<open>b\<close>, \<^verbatim>\<open>add(a, b)\<close>
  returns \<open>a + b\<close> and leaves the history equal to the old history followed by the
  single new element \<open>a + b\<close>; \<^verbatim>\<open>subtract(a, b)\<close> returns \<open>a - b\<close> and appends
  exactly \<open>a - b\<close>. The old entries are the prefix of the new history, unchanged.
\<close>

theorem Calculator_add_subtract_append:
  "fst (Calculator_add self a b) = a + b
   \<and> history (snd (Calculator_add self a b)) = history self @ [a + b]
   \<and> take (length (history self)) (history (snd (Calculator_add self a b))) = history self
   \<and> last (history (snd (Calculator_add self a b))) = a + b
   \<and> length (history (snd (Calculator_add self a b))) = Suc (length (history self))
   \<and> fst (Calculator_subtract self a b) = a - b
   \<and> history (snd (Calculator_subtract self a b)) = history self @ [a - b]
   \<and> take (length (history self)) (history (snd (Calculator_subtract self a b))) = history self
   \<and> last (history (snd (Calculator_subtract self a b))) = a - b
   \<and> length (history (snd (Calculator_subtract self a b))) = Suc (length (history self))"
  by (simp add: Calculator_add_def Calculator_subtract_def Let_def)

lemma history_foldl_invoke:
  "history (foldl invoke self cs) = history self @ computed cs"
proof (induction cs arbitrary: self)
  case Nil
  show ?case by simp
next
  case (Cons c cs)
  show ?case
  proof (cases c)
    case (Add a b)
    then show ?thesis
      using Cons.IH [of "snd (Calculator_add self a b)"]
      by (simp add: Calculator_add_def Let_def)
  next
    case (Subtract a b)
    then show ?thesis
      using Cons.IH [of "snd (Calculator_subtract self a b)"]
      by (simp add: Calculator_subtract_def Let_def)
  next
    case Get_last_result
    have "invoke self Get_last_result = self"
      by (simp add: Calculator_get_last_result_def list_getitem_last)
    with Get_last_result show ?thesis
      using Cons.IH [of self] by simp
  qed
qed

lemma get_last_result_eq:
  "Calculator_get_last_result self =
     Inr (if history self = [] then None else Some (last (history self)), self)"
  by (simp add: Calculator_get_last_result_def list_getitem_last)

text \<open>
  C7. For every calculator object, \<^verbatim>\<open>get_last_result\<close> raises nothing and leaves
  the object as it was; it returns \<^verbatim>\<open>None\<close> if and only if the history is empty, and
  otherwise the last element of the history. After any sequence of method calls on a
  new object the history is the list of the results of the calls to \<^verbatim>\<open>add\<close> and
  \<^verbatim>\<open>subtract\<close> in order, so the method returns \<^verbatim>\<open>None\<close> exactly when no such call
  was made and otherwise the result of the most recent one.
\<close>

theorem Calculator_get_last_result_last:
  "Calculator_get_last_result self =
     Inr (if history self = [] then None else Some (last (history self)), self)
   \<and> ((\<exists>self'. Calculator_get_last_result self = Inr (None, self')) = (history self = []))
   \<and> history (calls cs) = computed cs
   \<and> Calculator_get_last_result (calls cs) =
       Inr (if computed cs = [] then None else Some (last (computed cs)), calls cs)"
proof -
  have h: "history (calls cs) = computed cs"
    by (simp add: calls_def history_foldl_invoke Calculator_init_def)
  have "Calculator_get_last_result (calls cs) =
          Inr (if computed cs = [] then None else Some (last (computed cs)), calls cs)"
    using get_last_result_eq [of "calls cs"] h by simp
  moreover have "(\<exists>self'. Calculator_get_last_result self = Inr (None, self')) = (history self = [])"
    by (simp add: get_last_result_eq)
  ultimately show ?thesis
    using h get_last_result_eq [of self] by simp
qed

section \<open>Properties of \<^verbatim>\<open>fibonacci\<close>\<close>

lemma memo_ok_initial: "memo_ok [0 \<mapsto> 0, 1 \<mapsto> 1]"
  by (simp add: memo_ok_def)

lemma memo_ok_lookup:
  "memo n = Some v \<Longrightarrow> fib_memo n memo = Some (Inr (v, memo))"
  by (subst fib_memo.simps) (simp add: dict_getitem_def)

lemma memo_ok_value: "memo_ok memo \<Longrightarrow> memo n = Some v \<Longrightarrow> v = fib_number (nat n)"
  by (simp add: memo_ok_def)

lemma memo_ok_store:
  assumes "memo_ok memo" "2 \<le> n"
  shows "memo_ok (memo(n \<mapsto> fib_number (nat n)))"
  using assms by (auto simp: memo_ok_def)

lemma fib_number_step:
  assumes "2 \<le> n"
  shows "fib_number (nat n) = fib_number (nat (n - 1)) + fib_number (nat (n - 2))"
proof -
  define k where "k = nat (n - 2)"
  from assms have "nat n = Suc (Suc k)" "nat (n - 1) = Suc k"
    by (simp_all add: k_def)
  then show ?thesis by (simp add: k_def)
qed

lemma fib_memo_returns:
  "0 \<le> n \<Longrightarrow> memo_ok memo \<Longrightarrow>
     \<exists>memo'. fib_memo n memo = Some (Inr (fib_number (nat n), memo')) \<and> memo_ok memo'"
proof (induction "nat n" arbitrary: n memo rule: less_induct)
  case less
  show ?case
  proof (cases "memo n")
    case (Some v)
    with less.prems show ?thesis
      using memo_ok_lookup [of memo n v] memo_ok_value [of memo n v] by auto
  next
    case None
    with less.prems have n2: "2 \<le> n"
      by (cases "n = 0 \<or> n = 1") (auto simp: memo_ok_def)
    then have "nat (n - 1) < nat n" "0 \<le> n - 1" by linarith+
    with less.hyps [of "n - 1" memo] less.prems obtain memo1 where
      r1: "fib_memo (n - 1) memo = Some (Inr (fib_number (nat (n - 1)), memo1))"
      and ok1: "memo_ok memo1" by blast
    from n2 have "nat (n - 2) < nat n" "0 \<le> n - 2" by linarith+
    with less.hyps [of "n - 2" memo1] ok1 obtain memo2 where
      r2: "fib_memo (n - 2) memo1 = Some (Inr (fib_number (nat (n - 2)), memo2))"
      and ok2: "memo_ok memo2" by blast
    let ?memo3 = "memo2(n \<mapsto> fib_number (nat n))"
    have "fib_memo n memo = Some (Inr (fib_number (nat n), ?memo3))"
      by (subst fib_memo.simps)
        (simp add: None r1 r2 dict_getitem_def fib_number_step [OF n2] Let_def)
    moreover have "memo_ok ?memo3" using ok2 n2 by (rule memo_ok_store)
    ultimately show ?thesis by blast
  qed
qed


lemma fibonacci_value: "0 \<le> n \<Longrightarrow> fibonacci n = Some (Inr (fib_number (nat n)))"
  using fib_memo_returns [OF _ memo_ok_initial, of n] by (auto simp: fibonacci_def)


text \<open>
  C2. \<^verbatim>\<open>fibonacci(0)\<close> returns 0, \<^verbatim>\<open>fibonacci(1)\<close> returns 1 and \<^verbatim>\<open>fibonacci(10)\<close>
  returns 55: each call returns, and raises nothing.
\<close>

theorem fibonacci_0_1_10:
  "fibonacci 0 = Some (Inr 0) \<and> fibonacci 1 = Some (Inr 1) \<and> fibonacci 10 = Some (Inr 55)"
  by code_simp



section \<open>Properties of \<^verbatim>\<open>is_prime\<close>\<close>


















section \<open>Properties of the scripts\<close>











lemma valid_main_exact: "valid_main floor_sqrt = Some (valid_output, None)"
  by code_simp

lemma calculator_main_value: "calculator_main = Some (calculator_output, None)"
  by code_simp


lemma test_main_exact: "test_main floor_sqrt = Some (test_output, None)"
  by code_simp

lemma valid_prime_lines_extends:
  "\<forall>i\<in>set todo. 0 \<le> i \<Longrightarrow> \<exists>more r. valid_prime_lines pow_half todo out = Some (out @ more, r)"
proof (induction todo arbitrary: out)
  case Nil
  show ?case by simp
next
  case (Cons i todo)
  then have fib: "fibonacci i = Some (Inr (fib_number (nat i)))" by (simp add: fibonacci_value)
  let ?line = "''fibonacci('' @ str_int i @ '') = '' @ str_int (fib_number (nat i)) @ '' is prime''"
  show ?case
  proof (cases "is_prime pow_half (fib_number (nat i))")
    case (Inl e)
    with fib show ?thesis by simp
  next
    case (Inr p)
    from Cons have rest: "\<forall>i\<in>set todo. 0 \<le> i" by simp
    from Cons.IH [OF rest, of "if p then out @ [?line] else out"] obtain more r where
      "valid_prime_lines pow_half todo (if p then out @ [?line] else out)
         = Some ((if p then out @ [?line] else out) @ more, r)" by blast
    with fib Inr have "valid_prime_lines pow_half (i # todo) out
         = Some (out @ ((if p then [?line] else []) @ more), r)" by simp
    then show ?thesis by blast
  qed
qed

lemma valid_main_first_line:
  "\<exists>more r. valid_main pow_half = Some (''Fibonacci Sequence:'' # more, r)"
proof -
  have first: "valid_fibonacci_lines [0..9] [''Fibonacci Sequence:'']
      = Some (take 11 valid_output, None)" by code_simp
  obtain more r where "valid_prime_lines pow_half [0..19]
      (take 11 valid_output @ [CHR 0x0A # ''Prime Fibonacci Numbers:''])
      = Some ((take 11 valid_output @ [CHR 0x0A # ''Prime Fibonacci Numbers:'']) @ more, r)"
    using valid_prime_lines_extends
      [of "[0..19]" pow_half "take 11 valid_output @ [CHR 0x0A # ''Prime Fibonacci Numbers:'']"]
    by auto
  then have "valid_main pow_half =
      Some ((take 11 valid_output @ [CHR 0x0A # ''Prime Fibonacci Numbers:'']) @ more, r)"
    by (simp add: valid_main_def first)
  then show ?thesis by (simp add: valid_output_def)
qed

lemma test_prime_lines_extends:
  "\<exists>more r. test_prime_lines pow_half todo out = Some (out @ more, r)"
proof (induction todo arbitrary: out)
  case Nil
  show ?case by simp
next
  case (Cons i todo)
  show ?case
  proof (cases "test_is_prime pow_half i")
    case (Inl e)
    then show ?thesis by simp
  next
    case (Inr p)
    let ?line = "str_int i @ '' is prime''"
    from Cons.IH [of "if p then out @ [?line] else out"] obtain more r where
      "test_prime_lines pow_half todo (if p then out @ [?line] else out)
         = Some ((if p then out @ [?line] else out) @ more, r)" by blast
    with Inr have "test_prime_lines pow_half (i # todo) out
         = Some (out @ ((if p then [?line] else []) @ more), r)" by simp
    then show ?thesis by blast
  qed
qed

lemma test_main_first_line:
  "\<exists>more r. test_main pow_half = Some (''Testing fibonacci calculation:'' # more, r)"
proof -
  have first: "test_fibonacci_lines [0..9] [''Testing fibonacci calculation:'']
      = take 11 test_output" by code_simp
  obtain more r where "test_prime_lines pow_half [0..19]
      (take 11 test_output @ [CHR 0x0A # ''Testing prime numbers:''])
      = Some ((take 11 test_output @ [CHR 0x0A # ''Testing prime numbers:'']) @ more, r)"
    using test_prime_lines_extends
      [of pow_half "[0..19]" "take 11 test_output @ [CHR 0x0A # ''Testing prime numbers:'']"]
    by auto
  then have "test_main pow_half =
      Some ((take 11 test_output @ [CHR 0x0A # ''Testing prime numbers:'']) @ more, r)"
    by (simp add: test_main_def first)
  then show ?thesis by (simp add: test_output_def)
qed

text \<open>
  C1. The claim is that \<^verbatim>\<open>test.py\<close> does not parse, for a closing parenthesis missing
  in \<^verbatim>\<open>calculate_fibonacci\<close>, and so prints nothing. In the file every parenthesis of
  that function is closed, the file is a program, and its run prints twenty lines, the
  first of them whatever the floating-point square root returns.
\<close>

theorem test_py_parses_and_prints:
  "parentheses_balanced calculate_fibonacci_source
   \<and> test_main floor_sqrt = Some (test_output, None)
   \<and> length test_output = 20
   \<and> (\<exists>more r. test_main pow_half = Some (''Testing fibonacci calculation:'' # more, r))"
proof -
  have "parentheses_balanced calculate_fibonacci_source" by code_simp
  moreover have "length test_output = 20" by (simp add: test_output_def)
  ultimately show ?thesis using test_main_exact test_main_first_line by simp
qed

text \<open>
  C4, as the code has it. The two files labelled valid are two programs, not one
  program twice: \<^verbatim>\<open>valid.py\<close> prints \<^verbatim>\<open>Fibonacci Sequence:\<close> first, whatever the
  floating-point square root returns, \<^verbatim>\<open>calculator.py\<close> prints its three lines and
  stops, and the two runs differ.
\<close>

theorem valid_files_differ:
  "(\<exists>more r. valid_main pow_half = Some (''Fibonacci Sequence:'' # more, r))
   \<and> calculator_main = Some ([''5 + 3 = 8'', ''10 - 4 = 6'', ''Last result: 6''], None)
   \<and> valid_main pow_half \<noteq> calculator_main"
proof -
  obtain more r where "valid_main pow_half = Some (''Fibonacci Sequence:'' # more, r)"
    using valid_main_first_line by blast
  then show ?thesis by (simp add: calculator_main_value calculator_output_def)
qed

text \<open>
  The claim as it is written, that the two files define the same program, fails on
  their runs: with the exact square root \<^verbatim>\<open>valid.py\<close> prints nineteen lines and
  \<^verbatim>\<open>calculator.py\<close> three others.
\<close>

theorem valid_files_differ_counterexample:
  "valid_main floor_sqrt \<noteq> calculator_main"
  by (simp add: valid_main_exact calculator_main_value valid_output_def calculator_output_def)



section \<open>Properties of \<^verbatim>\<open>process_input\<close>\<close>

text \<open>
  C5. On a string for which \<^verbatim>\<open>float(value)\<close> raises an exception, whichever it is,
  \<^verbatim>\<open>process_input\<close> prints \<^verbatim>\<open>Error converting value\<close> and returns \<^verbatim>\<open>None\<close>; on a
  string for which it returns a float the method returns that float and prints
  nothing; on \<^verbatim>\<open>None\<close> it returns the integer 0.
\<close>

theorem process_input_bare_except:
  "(to_float s = Inl e \<longrightarrow>
      badCalculator_process_input to_float self (PyStr s) = (PyNone, [''Error converting value'']))
   \<and> (to_float s = Inr f \<longrightarrow>
      badCalculator_process_input to_float self (PyStr s) = (PyFloat f, []))
   \<and> badCalculator_process_input to_float self PyNone = (PyInt 0, [])"
  by simp

theorem process_input_bare_except_witness:
  "badCalculator_process_input (\<lambda>s. if s = ''3'' then Inr (3::int) else Inl ValueError)
      (badCalculator_init :: int badCalculator) (PyStr ''abc'')
     = (PyNone, [''Error converting value''])
   \<and> badCalculator_process_input (\<lambda>s. if s = ''3'' then Inr (3::int) else Inl ValueError)
      (badCalculator_init :: int badCalculator) (PyStr ''3'')
     = (PyFloat 3, [])
   \<and> badCalculator_process_input (\<lambda>s. if s = ''3'' then Inr (3::int) else Inl ValueError)
      (badCalculator_init :: int badCalculator) PyNone
     = (PyInt 0, [])"
  using process_input_bare_except
      [of "\<lambda>s. if s = ''3'' then Inr (3::int) else Inl ValueError" "''abc''" ValueError
        "badCalculator_init :: int badCalculator" 3]
    process_input_bare_except
      [of "\<lambda>s. if s = ''3'' then Inr (3::int) else Inl ValueError" "''3''" ValueError
        "badCalculator_init :: int badCalculator" 3]
  by simp

section \<open>Properties of the style check\<close>

text \<open>
  C10. \<^verbatim>\<open>bad_code.py\<close> fails the style check: the check reports a violation of each
  of the three conventions (the names of the class and of two methods, two
  assignments without spaces, and the bare \<^verbatim>\<open>except:\<close>). The valid fixture
  \<^verbatim>\<open>calculator.py\<close> passes the same check.
\<close>

theorem bad_code_fails_style_check:
  "\<not> style_check bad_code_source
   \<and> style_violations bad_code_source =
       [(5, Naming), (7, Spacing), (9, Naming), (11, Spacing), (27, Naming), (36, Bare_except)]
   \<and> style_check calculator_source"
  by code_simp

end
